theory Spec2Isabelle
  imports Complex_Main "HOL-Library.Multiset"
begin

section \<open>Time, currency and text\<close>

text \<open>
  A \<^verbatim>\<open>datetime\<close> is the number of microseconds since some fixed origin (all datetimes of
  the service are naive, as \<^verbatim>\<open>datetime.now()\<close> produces them); a \<^verbatim>\<open>timedelta\<close> is a
  number of microseconds. The range limits of \<^verbatim>\<open>datetime\<close> (years 1 to 9999) are not modelled.
  \<^verbatim>\<open>timedelta.days\<close> is the floor of the quotient by one day.
\<close>

definition usec_per_day :: int where
  "usec_per_day = 86400000000"

definition timedelta_days :: "int \<Rightarrow> int" where
  "timedelta_days n = n * usec_per_day"

definition days_of :: "int \<Rightarrow> int" where
  "days_of delta = delta div usec_per_day"

text \<open>
  A timestamp as Python holds it: a \<^verbatim>\<open>datetime\<close> object, or text (an ISO string as a
  SQLite TEXT column is read back). The service tests \<^verbatim>\<open>isinstance(_, datetime)\<close>,
  \<^verbatim>\<open>isinstance(_, str)\<close> and \<^verbatim>\<open>hasattr(_, "isoformat")\<close> on such values.
\<close>

datatype tsval = TsDatetime int | TsText string

datatype py_error = TypeError | ValueError

text \<open>
  Amounts are Python floats. Every fee the calculator produces is a multiple of 0.5 below
  16, which binary floating point holds exactly, so real arithmetic agrees with it there;
  comparisons of a float with the constants 0 and 15.00 are exact as well.
  \<^verbatim>\<open>round(x, 2)\<close> and the format \<^verbatim>\<open>:.2f\<close> round the exact value to the nearest hundredth,
  ties to even.
\<close>

definition round_half_even :: "real \<Rightarrow> int" where
  "round_half_even x =
     (let f = \<lfloor>x\<rfloor>; d = x - of_int f
      in if d < 1 / 2 then f
         else if 1 / 2 < d then f + 1
         else if even f then f else f + 1)"

definition round2 :: "real \<Rightarrow> real" where
  "round2 x = of_int (round_half_even (x * 100)) / 100"

definition digit_char :: "nat \<Rightarrow> char" where
  "digit_char d = char_of (48 + d)"

fun str_nat :: "nat \<Rightarrow> string" where
  "str_nat n = (if n < 10 then [digit_char n] else str_nat (n div 10) @ [digit_char (n mod 10)])"

declare str_nat.simps [simp del]

definition str_int :: "int \<Rightarrow> string" where
  "str_int i = (if i < 0 then CHR ''-'' # str_nat (nat (- i)) else str_nat (nat i))"

definition format_2f :: "real \<Rightarrow> string" where
  "format_2f x =
     (let c = round_half_even (\<bar>x\<bar> * 100);
          body = str_nat (nat (c div 100)) @ ''.'' @
                 [digit_char (nat (c mod 100 div 10)), digit_char (nat (c mod 10))]
      in if x < 0 \<and> c \<noteq> 0 then CHR ''-'' # body else body)"

text \<open>
  A patron id is a Python \<^verbatim>\<open>str\<close> whose characters the service counts (\<^verbatim>\<open>len\<close>) and
  classifies (\<^verbatim>\<open>isdigit\<close>): it is the list of its Unicode code points. All other text is only
  concatenated or compared with ASCII literals, for which a list of bytes does.
\<close>

type_synonym pystr = "nat list"

definition startswith :: "string \<Rightarrow> string \<Rightarrow> bool" where
  "startswith s p = (take (length p) s = p)"

section \<open>The library state\<close>

record book =
  title :: string
  author :: string
  isbn :: string
  total_copies :: int
  available_copies :: int

record borrow_record =
  patron_id :: pystr
  book_id :: int
  borrow_date :: int
  due_date :: int
  return_date :: "int option"

datatype gateway_call =
  ProcessPayment pystr real string
| RefundPayment string real

text \<open>
  The tables \<^verbatim>\<open>books\<close> (keyed by the book id) and \<^verbatim>\<open>borrow_records\<close> (in insertion
  order), and the log of the calls made to the payment gateway.
\<close>

record world =
  books :: "int \<rightharpoonup> book"
  records :: "borrow_record list"
  gateway_log :: "gateway_call list"

text \<open>
  The payment gateway is an external capability: a call returns a value or raises an
  exception with a message.
\<close>

datatype 'a reply = Returns 'a | Raises string

record gateway =
  process_payment :: "pystr \<Rightarrow> real \<Rightarrow> string \<Rightarrow> (bool \<times> string option \<times> string) reply"
  refund_payment :: "string \<Rightarrow> real \<Rightarrow> (bool \<times> string) reply"

text \<open>
  What the program is run with, and does not define itself: the library functions
  \<^verbatim>\<open>datetime.fromisoformat\<close> (\<open>None\<close> where it raises \<^verbatim>\<open>ValueError\<close>), \<^verbatim>\<open>isoformat\<close> and
  \<^verbatim>\<open>strftime("%Y-%m-%d")\<close>, and the form in which the database connection hands a stored
  timestamp to Python, the gateway that the constructor \<^verbatim>\<open>PaymentGateway()\<close> builds, and
  the character test of \<^verbatim>\<open>str.isdigit()\<close>: whether a code point is a digit in Python's Unicode
  database (the ASCII digits are, and so are superscript and fullwidth digits, among others).
\<close>

record env =
  fromisoformat :: "string \<Rightarrow> int option"
  isoformat :: "int \<Rightarrow> string"
  strftime_ymd :: "int \<Rightarrow> string"
  fetch_ts :: "int \<Rightarrow> tsval"
  PaymentGateway :: gateway
  unicode_digit :: "nat \<Rightarrow> bool"

text \<open>
  \<^verbatim>\<open>str.isdigit()\<close>: the string is not empty and every character of it is a digit.
\<close>

definition isdigit :: "env \<Rightarrow> pystr \<Rightarrow> bool" where
  "isdigit e s = (s \<noteq> [] \<and> list_all (unicode_digit e) s)"

text \<open>
  Whether each kind of storage operation succeeds during one call of the service. A failing
  operation returns \<^verbatim>\<open>False\<close> and changes nothing.
\<close>

record storage =
  insert_ok :: bool
  availability_ok :: bool
  return_date_ok :: bool

definition active :: "borrow_record \<Rightarrow> bool" where
  "active r = (return_date r = None)"

definition active_for :: "pystr \<Rightarrow> int \<Rightarrow> borrow_record \<Rightarrow> bool" where
  "active_for pid bid r = (patron_id r = pid \<and> book_id r = bid \<and> return_date r = None)"

text \<open>
  \<^verbatim>\<open>get_borrow_record\<close>: the first row of
  \<^verbatim>\<open>SELECT * FROM borrow_records WHERE patron_id = ? AND book_id = ? AND return_date IS NULL\<close>.
\<close>

definition get_borrow_record :: "world \<Rightarrow> pystr \<Rightarrow> int \<Rightarrow> borrow_record option" where
  "get_borrow_record w pid bid = find (active_for pid bid) (records w)"

section \<open>The fee calculator\<close>

record fee_quote =
  fee_amount :: real
  days_overdue :: int
  status :: string

text \<open>
  \<^verbatim>\<open>calculate_late_fee_for_book(patron_id, book_id, borrow_record=None, now=None)\<close>.
  The argument \<open>borrow_record\<close> is \<open>None\<close> or the dictionary, of which the function reads
  only \<^verbatim>\<open>.get("due_date")\<close>: the dictionary is given by that value. The test hook
  \<^verbatim>\<open>get_active_borrow_record\<close> is not a global of the module, so the lookup goes to
  \<open>get_borrow_record\<close>. \<open>clock\<close> is what \<^verbatim>\<open>datetime.now()\<close> returns when it is read.
  Subtracting a datetime from a string raises \<^verbatim>\<open>TypeError\<close>.
\<close>

definition resolve_due :: "env \<Rightarrow> tsval \<Rightarrow> py_error + int" where
  "resolve_due e due =
     (case due of
        TsDatetime d \<Rightarrow> Inr d
      | TsText s \<Rightarrow> (case fromisoformat e s of None \<Rightarrow> Inl ValueError | Some d \<Rightarrow> Inr d))"

definition late_fee :: "int \<Rightarrow> real" where
  "late_fee days =
     (let first = min days 7;
          rest = max 0 (days - 7)
      in min (of_int first * 0.50 + of_int rest * 1.00) 15.00)"

definition record_due :: "env \<Rightarrow> world \<Rightarrow> pystr \<Rightarrow> int \<Rightarrow> tsval option option \<Rightarrow> tsval option" where
  "record_due e w pid bid borrow_record =
     (case borrow_record of
        None \<Rightarrow>
          (case get_borrow_record w pid bid of
             None \<Rightarrow> None
           | Some r \<Rightarrow> Some (fetch_ts e (due_date r)))
      | Some d \<Rightarrow> d)"

definition evaluation_instant :: "int \<Rightarrow> tsval option \<Rightarrow> tsval" where
  "evaluation_instant clock now = (case now of None \<Rightarrow> TsDatetime clock | Some n \<Rightarrow> n)"

definition calculate_late_fee_for_book ::
  "env \<Rightarrow> world \<Rightarrow> int \<Rightarrow> pystr \<Rightarrow> int \<Rightarrow> tsval option option \<Rightarrow> tsval option
     \<Rightarrow> py_error + fee_quote" where
  "calculate_late_fee_for_book e w clock pid bid borrow_record now =
     (case record_due e w pid bid borrow_record of
        None \<Rightarrow> Inr \<lparr>fee_amount = 0.0, days_overdue = 0, status = ''ok''\<rparr>
      | Some due \<Rightarrow>
          (case resolve_due e due of
             Inl err \<Rightarrow> Inl err
           | Inr d \<Rightarrow>
               (case evaluation_instant clock now of
                  TsText _ \<Rightarrow> Inl TypeError
                | TsDatetime n \<Rightarrow>
                    (let days = max 0 (days_of (n - d))
                     in Inr \<lparr>fee_amount = round2 (late_fee days),
                             days_overdue = days, status = ''ok''\<rparr>))))"




section \<open>The data-access functions\<close>

text \<open>
  Modelled from the spec: the module \<^verbatim>\<open>database\<close> (\<^verbatim>\<open>get_book_by_id\<close>,
  \<^verbatim>\<open>get_patron_borrow_count\<close>, \<^verbatim>\<open>insert_borrow_record\<close>, \<^verbatim>\<open>update_book_availability\<close>,
  \<^verbatim>\<open>update_borrow_record_return_date\<close>, \<^verbatim>\<open>get_patron_borrowed_books\<close>) is not among the
  sources. The specification gives the data-access interface: a lookup returns the
  structured record, the count is the number of active loans of the patron, an insertion
  creates the record with a null return date, the availability update adds its delta to the
  book's \<^verbatim>\<open>available_copies\<close>, the return-date update sets the return date of the active
  record of the pair; a mutating operation returns a success flag. A lookup changes nothing.
\<close>

text \<open>
  Modelled from the spec: \<^verbatim>\<open>get_book_by_id\<close> of the absent module \<^verbatim>\<open>database\<close>; the book
  with that id, or nothing.
\<close>

definition get_book_by_id :: "world \<Rightarrow> int \<Rightarrow> book option" where
  "get_book_by_id w bid = books w bid"

text \<open>
  Modelled from the spec: \<^verbatim>\<open>get_patron_borrow_count\<close> of the absent module \<^verbatim>\<open>database\<close>;
  the number of active loans of the patron.
\<close>

definition get_patron_borrow_count :: "world \<Rightarrow> pystr \<Rightarrow> int" where
  "get_patron_borrow_count w pid =
     int (length (filter (\<lambda>r. patron_id r = pid \<and> active r) (records w)))"

text \<open>
  Modelled from the spec: \<^verbatim>\<open>insert_borrow_record\<close> of the absent module \<^verbatim>\<open>database\<close>; a new
  record with the given dates and a null return date, or a reported failure.
\<close>

definition insert_borrow_record ::
  "storage \<Rightarrow> world \<Rightarrow> pystr \<Rightarrow> int \<Rightarrow> int \<Rightarrow> int \<Rightarrow> bool \<times> world" where
  "insert_borrow_record st w pid bid bdate ddate =
     (if insert_ok st
      then (True, w\<lparr>records := records w @
              [\<lparr>patron_id = pid, book_id = bid, borrow_date = bdate, due_date = ddate,
                return_date = None\<rparr>]\<rparr>)
      else (False, w))"

text \<open>
  Modelled from the spec: \<^verbatim>\<open>update_book_availability\<close> of the absent module \<^verbatim>\<open>database\<close>;
  the delta is added to the available copies of the book, or a failure is reported.
\<close>

definition update_book_availability :: "storage \<Rightarrow> world \<Rightarrow> int \<Rightarrow> int \<Rightarrow> bool \<times> world" where
  "update_book_availability st w bid delta =
     (if availability_ok st
      then (True,
            (case books w bid of
               None \<Rightarrow> w
             | Some b \<Rightarrow>
                 w\<lparr>books := (books w)(bid \<mapsto> b\<lparr>available_copies := available_copies b + delta\<rparr>)\<rparr>))
      else (False, w))"

text \<open>
  Modelled from the spec: \<^verbatim>\<open>update_borrow_record_return_date\<close> of the absent module
  \<^verbatim>\<open>database\<close>; the return date is set on the active record of the (patron, book) pair, or
  a failure is reported. \<open>close_record\<close> is its effect on one row.
\<close>

definition close_record :: "pystr \<Rightarrow> int \<Rightarrow> int \<Rightarrow> borrow_record \<Rightarrow> borrow_record" where
  "close_record pid bid rdate r =
     (if active_for pid bid r then r\<lparr>return_date := Some rdate\<rparr> else r)"

definition update_borrow_record_return_date ::
  "storage \<Rightarrow> world \<Rightarrow> pystr \<Rightarrow> int \<Rightarrow> int \<Rightarrow> bool \<times> world" where
  "update_borrow_record_return_date st w pid bid rdate =
     (if return_date_ok st
      then (True, w\<lparr>records := map (close_record pid bid rdate) (records w)\<rparr>)
      else (False, w))"

text \<open>
  The join of a record with its book, \<^verbatim>\<open>JOIN books b ON b.id = br.book_id\<close>: a record whose
  book is missing gives no row.
\<close>

definition with_book :: "world \<Rightarrow> borrow_record \<Rightarrow> (borrow_record \<times> book) option" where
  "with_book w r = map_option (\<lambda>b. (r, b)) (books w (book_id r))"

text \<open>
  Modelled from the spec: \<^verbatim>\<open>get_patron_borrowed_books\<close> of the absent module \<^verbatim>\<open>database\<close>
  (the spec's \<open>getActiveBorrowsByPatron\<close>); the active records of the patron, each with its
  book for the title and the author.
\<close>

definition get_patron_borrowed_books :: "world \<Rightarrow> pystr \<Rightarrow> (borrow_record \<times> book) list" where
  "get_patron_borrowed_books w pid =
     List.map_filter (with_book w) (filter (\<lambda>r. patron_id r = pid \<and> active r) (records w))"

section \<open>Borrowing and returning\<close>

abbreviation dq :: char where
  "dq \<equiv> CHR 0x22"

abbreviation sq :: char where
  "sq \<equiv> CHR 0x27"

definition invalid_patron_id :: "env \<Rightarrow> pystr \<Rightarrow> bool" where
  "invalid_patron_id e pid = (pid = [] \<or> \<not> isdigit e pid \<or> length pid \<noteq> 6)"

text \<open>
  \<^verbatim>\<open>borrow_book_by_patron(patron_id: str, book_id: int)\<close>. The book id is an integer, as
  annotated, so \<^verbatim>\<open>isinstance(book_id, int)\<close> holds. \<open>now\<close> is the clock when the borrow date
  is taken, \<open>now_comp\<close> the clock when the compensation reads it again. The result of the
  compensating update is discarded, as in the source.
\<close>

definition borrow_book_by_patron ::
  "env \<Rightarrow> storage \<Rightarrow> int \<Rightarrow> int \<Rightarrow> pystr \<Rightarrow> int \<Rightarrow> world \<Rightarrow> (bool \<times> string) \<times> world" where
  "borrow_book_by_patron e st now now_comp pid bid w =
     (if invalid_patron_id e pid
      then ((False, ''Invalid patron ID. Must be exactly 6 digits.''), w)
      else
        (case get_book_by_id w bid of
           None \<Rightarrow> ((False, ''Book not found.''), w)
         | Some book \<Rightarrow>
             if available_copies book \<le> 0
             then ((False, ''This book is currently not available.''), w)
             else if get_patron_borrow_count w pid \<ge> 5
             then ((False, ''You have reached the maximum borrowing limit of 5 books.''), w)
             else if get_borrow_record w pid bid \<noteq> None
             then ((False, ''You already have this book checked out.''), w)
             else
               (let borrow_date = now;
                    due_date = borrow_date + timedelta_days 14;
                    (borrow_success, w1) = insert_borrow_record st w pid bid borrow_date due_date
                in if \<not> borrow_success
                   then ((False, ''Database error occurred while creating borrow record.''), w1)
                   else
                     (let (availability_success, w2) = update_book_availability st w1 bid (- 1)
                      in if \<not> availability_success
                         then
                           (let (_, w3) = update_borrow_record_return_date st w2 pid bid now_comp
                            in ((False,
                                 ''Database error occurred while updating book availability.''), w3))
                         else
                           ((True,
                             ''Successfully borrowed '' @ [dq] @ title book @ [dq] @
                             ''. Due date: '' @ strftime_ymd e due_date @ ''.''), w2)))))"

text \<open>
  \<^verbatim>\<open>return_book_by_patron(patron_id: str, book_id: int)\<close>. \<^verbatim>\<open>not book_id\<close> holds of the
  integer 0. The fee is computed before anything is written, so an unreadable due date
  raises with the state unchanged.
\<close>

definition return_book_by_patron ::
  "env \<Rightarrow> storage \<Rightarrow> int \<Rightarrow> pystr \<Rightarrow> int \<Rightarrow> world \<Rightarrow> (py_error + bool \<times> string) \<times> world" where
  "return_book_by_patron e st now pid bid w =
     (if invalid_patron_id e pid
      then (Inr (False, ''Invalid patron ID. Must be exactly 6 digits.''), w)
      else if bid = 0
      then (Inr (False, ''Invalid book ID.''), w)
      else
        (case get_book_by_id w bid of
           None \<Rightarrow>
             if length (str_int bid) = 13
             then (Inr (False, ''Book not found by ISBN. Did you mean to search by ID?''), w)
             else (Inr (False, ''Book not found.''), w)
         | Some book \<Rightarrow>
             (case get_borrow_record w pid bid of
                None \<Rightarrow> (Inr (False, ''No active borrow record found for this patron and book.''), w)
              | Some borrow_record \<Rightarrow>
                  (case calculate_late_fee_for_book e w now pid bid
                          (Some (Some (fetch_ts e (due_date borrow_record))))
                          (Some (TsDatetime now)) of
                     Inl err \<Rightarrow> (Inl err, w)
                   | Inr fee \<Rightarrow>
                       (let (marked, w1) = update_borrow_record_return_date st w pid bid now
                        in if \<not> marked
                           then (Inr (False, ''Database error occurred while marking return.''), w1)
                           else
                             (let (incremented, w2) = update_book_availability st w1 bid 1
                              in if \<not> incremented
                                 then (Inr (False,
                                   ''Database error occurred while updating book availability.''), w2)
                                 else if fee_amount fee > 0
                                 then (Inr (True,
                                   ''Book returned: '' @ [dq] @ title book @ [dq] @
                                   ''. Late fee: $'' @ format_2f (fee_amount fee) @ '' ('' @
                                   str_int (days_overdue fee) @ '' days overdue).''), w2)
                                 else (Inr (True,
                                   ''Book returned: '' @ [dq] @ title book @ [dq] @
                                   ''. No late fee.''), w2)))))))"

section \<open>The patron status report\<close>

record loan_entry =
  loan_book_id :: int
  loan_title :: string
  loan_author :: string
  loan_borrow_date :: string
  loan_due_date :: string
  is_overdue :: bool
  loan_days_overdue :: int
  current_fee :: real

record history_entry =
  hist_book_id :: int
  hist_title :: string
  hist_author :: string
  hist_isbn :: string
  hist_borrow_date :: string
  hist_due_date :: string
  hist_return_date :: "string option"
  days_overdue_at_end :: int
  late_fee_at_end :: real

record status_report =
  current_loans :: "loan_entry list"
  current_count :: nat
  total_late_fees :: real
  history :: "history_entry list"
  currently_borrowed :: "loan_entry list"
  current_borrow_count :: nat
  total_late_fees_owed :: real
  report_patron_id :: pystr

datatype report_result = ReportError string | Report status_report

text \<open>
  \<^verbatim>\<open>x.isoformat() if hasattr(x, "isoformat") else str(x)\<close>, and the same after the test
  \<^verbatim>\<open>isinstance(x, str)\<close>: a datetime is formatted, text is kept.
\<close>

definition show_ts :: "env \<Rightarrow> tsval \<Rightarrow> string" where
  "show_ts e v = (case v of TsDatetime n \<Rightarrow> isoformat e n | TsText s \<Rightarrow> s)"

definition truthy :: "tsval \<Rightarrow> bool" where
  "truthy v = (case v of TsDatetime _ \<Rightarrow> True | TsText s \<Rightarrow> s \<noteq> [])"

text \<open>
  One round of the loop over the active loans. The fee is asked for with two arguments
  first, which looks the active record up again and reads the clock (\<open>clock\<close>); the call
  with the loan's own due date and the report's \<open>now\<close> is made only after a \<^verbatim>\<open>TypeError\<close>.
\<close>

definition current_loan ::
  "env \<Rightarrow> world \<Rightarrow> int \<Rightarrow> int \<Rightarrow> pystr \<Rightarrow> borrow_record \<times> book \<Rightarrow> py_error + loan_entry" where
  "current_loan e w now clock pid a =
     (let r = fst a; b = snd a;
          first_try = calculate_late_fee_for_book e w clock pid (book_id r) None None;
          fee_info =
            (case first_try of
               Inl TypeError \<Rightarrow>
                 calculate_late_fee_for_book e w clock pid (book_id r)
                   (Some (Some (fetch_ts e (due_date r)))) (Some (TsDatetime now))
             | _ \<Rightarrow> first_try)
      in case fee_info of
           Inl err \<Rightarrow> Inl err
         | Inr q \<Rightarrow>
             Inr \<lparr>loan_book_id = book_id r, loan_title = title b, loan_author = author b,
                  loan_borrow_date = show_ts e (fetch_ts e (borrow_date r)),
                  loan_due_date = show_ts e (fetch_ts e (due_date r)),
                  is_overdue = (days_overdue q > 0), loan_days_overdue = days_overdue q,
                  current_fee = fee_amount q\<rparr>)"

fun loans_loop ::
  "env \<Rightarrow> world \<Rightarrow> int \<Rightarrow> (nat \<Rightarrow> int) \<Rightarrow> pystr \<Rightarrow> nat \<Rightarrow> (borrow_record \<times> book) list
     \<Rightarrow> py_error + loan_entry list" where
  "loans_loop e w now clock pid i [] = Inr []"
| "loans_loop e w now clock pid i (a # rest) =
     (case current_loan e w now (clock i) pid a of
        Inl err \<Rightarrow> Inl err
      | Inr l \<Rightarrow>
          (case loans_loop e w now clock pid (Suc i) rest of
             Inl err \<Rightarrow> Inl err
           | Inr ls \<Rightarrow> Inr (l # ls)))"

text \<open>
  The history query: the patron's records joined with their books,
  \<^verbatim>\<open>ORDER BY br.borrow_date DESC\<close>. Rows with equal borrow dates keep the order of the table
  (SQL leaves their order open).
\<close>

definition history_rows :: "world \<Rightarrow> pystr \<Rightarrow> (borrow_record \<times> book) list" where
  "history_rows w pid =
     sort_key (\<lambda>row. - borrow_date (fst row))
       (List.map_filter (with_book w) (filter (\<lambda>r. patron_id r = pid) (records w)))"

definition end_instant :: "env \<Rightarrow> int \<Rightarrow> borrow_record \<Rightarrow> tsval" where
  "end_instant e now r =
     (case map_option (fetch_ts e) (return_date r) of
        None \<Rightarrow> TsDatetime now
      | Some ret_dt \<Rightarrow> if truthy ret_dt then ret_dt else TsDatetime now)"

definition history_row :: "env \<Rightarrow> world \<Rightarrow> int \<Rightarrow> pystr \<Rightarrow> borrow_record \<times> book \<Rightarrow> py_error + history_entry" where
  "history_row e w now pid row =
     (let r = fst row; b = snd row;
          borrow_dt = fetch_ts e (borrow_date r);
          due_dt = fetch_ts e (due_date r);
          ret_dt = map_option (fetch_ts e) (return_date r);
          end_dt = end_instant e now r;
          fee_end =
            (case calculate_late_fee_for_book e w now pid (book_id r) (Some (Some due_dt))
                    (Some end_dt) of
               Inl TypeError \<Rightarrow> Inr (0, 0.0)
             | Inl err \<Rightarrow> Inl err
             | Inr q \<Rightarrow> Inr (days_overdue q, fee_amount q))
      in case fee_end of
           Inl err \<Rightarrow> Inl err
         | Inr (days, fee) \<Rightarrow>
             Inr \<lparr>hist_book_id = book_id r, hist_title = title b, hist_author = author b,
                  hist_isbn = isbn b, hist_borrow_date = show_ts e borrow_dt,
                  hist_due_date = show_ts e due_dt,
                  hist_return_date = map_option (show_ts e) ret_dt,
                  days_overdue_at_end = days, late_fee_at_end = fee\<rparr>)"

fun history_loop ::
  "env \<Rightarrow> world \<Rightarrow> int \<Rightarrow> pystr \<Rightarrow> (borrow_record \<times> book) list \<Rightarrow> py_error + history_entry list" where
  "history_loop e w now pid [] = Inr []"
| "history_loop e w now pid (row # rest) =
     (case history_row e w now pid row of
        Inl err \<Rightarrow> Inl err
      | Inr h \<Rightarrow>
          (case history_loop e w now pid rest of
             Inl err \<Rightarrow> Inl err
           | Inr hs \<Rightarrow> Inr (h # hs)))"

text \<open>
  \<^verbatim>\<open>get_patron_status_report(patron_id)\<close>. The test hook \<^verbatim>\<open>get_active_borrows_by_patron\<close> is
  not a global of the module, so the active loans come from \<open>get_patron_borrowed_books\<close>.
  \<open>now\<close> is the clock read of the report; \<open>clock i\<close> is the clock inside the fee computation
  of the \<open>i\<close>-th active loan.
\<close>

definition get_patron_status_report ::
  "env \<Rightarrow> int \<Rightarrow> (nat \<Rightarrow> int) \<Rightarrow> pystr \<Rightarrow> world \<Rightarrow> py_error + report_result" where
  "get_patron_status_report e now clock pid w =
     (if invalid_patron_id e pid
      then Inr (ReportError ''Invalid patron ID. Must be exactly 6 digits.'')
      else
        (case loans_loop e w now clock pid 0 (get_patron_borrowed_books w pid) of
           Inl err \<Rightarrow> Inl err
         | Inr loans \<Rightarrow>
             (let count = length loans;
                  total = round2 (sum_list (map current_fee loans))
              in case history_loop e w now pid (history_rows w pid) of
                   Inl err \<Rightarrow> Inl err
                 | Inr hist \<Rightarrow>
                     Inr (Report
                       \<lparr>current_loans = loans, current_count = count, total_late_fees = total,
                        history = hist, currently_borrowed = loans, current_borrow_count = count,
                        total_late_fees_owed = total, report_patron_id = pid\<rparr>))))"

section \<open>Paying and refunding late fees\<close>

text \<open>
  \<^verbatim>\<open>pay_late_fees(patron_id, book_id, payment_gateway=None)\<close>. The fee dictionary of the
  calculator always holds \<^verbatim>\<open>fee_amount\<close>, so the test for a missing fee never fires. An
  exception of the fee computation is raised outside the \<^verbatim>\<open>try\<close> and leaves the function;
  an exception of the gateway is caught.
\<close>

definition pay_late_fees ::
  "env \<Rightarrow> int \<Rightarrow> pystr \<Rightarrow> int \<Rightarrow> gateway option \<Rightarrow> world
     \<Rightarrow> (py_error + bool \<times> string \<times> string option) \<times> world" where
  "pay_late_fees e clock pid bid payment_gateway w =
     (if invalid_patron_id e pid
      then (Inr (False, ''Invalid patron ID. Must be exactly 6 digits.'', None), w)
      else
        (case calculate_late_fee_for_book e w clock pid bid None None of
           Inl err \<Rightarrow> (Inl err, w)
         | Inr fee_info \<Rightarrow>
             if fee_amount fee_info \<le> 0
             then (Inr (False, ''No late fees to pay for this book.'', None), w)
             else
               (case get_book_by_id w bid of
                  None \<Rightarrow> (Inr (False, ''Book not found.'', None), w)
                | Some book \<Rightarrow>
                    (let gw = (case payment_gateway of None \<Rightarrow> PaymentGateway e | Some g \<Rightarrow> g);
                         description = ''Late fees for '' @ [sq] @ title book @ [sq];
                         w' = w\<lparr>gateway_log := gateway_log w @
                                [ProcessPayment pid (fee_amount fee_info) description]\<rparr>
                     in case process_payment gw pid (fee_amount fee_info) description of
                          Returns (success, transaction_id, message) \<Rightarrow>
                            if success
                            then (Inr (True, ''Payment successful! '' @ message, transaction_id), w')
                            else (Inr (False, ''Payment failed: '' @ message, None), w')
                        | Raises msg \<Rightarrow>
                            (Inr (False, ''Payment processing error: '' @ msg, None), w')))))"

text \<open>\<^verbatim>\<open>refund_late_fee_payment(transaction_id, amount, payment_gateway=None)\<close>.\<close>

definition refund_late_fee_payment ::
  "env \<Rightarrow> string \<Rightarrow> real \<Rightarrow> gateway option \<Rightarrow> world \<Rightarrow> (bool \<times> string) \<times> world" where
  "refund_late_fee_payment e transaction_id amount payment_gateway w =
     (if transaction_id = [] \<or> \<not> startswith transaction_id ''txn_''
      then ((False, ''Invalid transaction ID.''), w)
      else if amount \<le> 0
      then ((False, ''Refund amount must be greater than 0.''), w)
      else if amount > 15.00
      then ((False, ''Refund amount exceeds maximum late fee.''), w)
      else
        (let gw = (case payment_gateway of None \<Rightarrow> PaymentGateway e | Some g \<Rightarrow> g);
             w' = w\<lparr>gateway_log := gateway_log w @ [RefundPayment transaction_id amount]\<rparr>
         in case refund_payment gw transaction_id amount of
              Returns (success, message) \<Rightarrow>
                if success then ((True, message), w')
                else ((False, ''Refund failed: '' @ message), w')
            | Raises msg \<Rightarrow> ((False, ''Refund processing error: '' @ msg), w')))"

section \<open>The wording of the claims\<close>

text \<open>
  The five validation checks of a borrow in the order the specification gives them, each
  stated on its own, and the error each one stands for. \<open>first_failing_check\<close> is the first
  check of that order that fails.
\<close>

datatype borrow_check = PatronIdFormat | BookExists | CopiesAvailable | BelowLoanLimit | NoDuplicateLoan

definition check_fails :: "env \<Rightarrow> world \<Rightarrow> pystr \<Rightarrow> int \<Rightarrow> borrow_check \<Rightarrow> bool" where
  "check_fails e w pid bid c =
     (case c of
        PatronIdFormat \<Rightarrow> \<not> (length pid = 6 \<and> list_all (unicode_digit e) pid)
      | BookExists \<Rightarrow> books w bid = None
      | CopiesAvailable \<Rightarrow> (case books w bid of None \<Rightarrow> True | Some b \<Rightarrow> \<not> 0 < available_copies b)
      | BelowLoanLimit \<Rightarrow> \<not> get_patron_borrow_count w pid < 5
      | NoDuplicateLoan \<Rightarrow> list_ex (active_for pid bid) (records w))"

definition check_order :: "borrow_check list" where
  "check_order = [PatronIdFormat, BookExists, CopiesAvailable, BelowLoanLimit, NoDuplicateLoan]"

definition check_error :: "borrow_check \<Rightarrow> string" where
  "check_error c =
     (case c of
        PatronIdFormat \<Rightarrow> ''Invalid patron ID. Must be exactly 6 digits.''
      | BookExists \<Rightarrow> ''Book not found.''
      | CopiesAvailable \<Rightarrow> ''This book is currently not available.''
      | BelowLoanLimit \<Rightarrow> ''You have reached the maximum borrowing limit of 5 books.''
      | NoDuplicateLoan \<Rightarrow> ''You already have this book checked out.'')"

definition first_failing_check :: "env \<Rightarrow> world \<Rightarrow> pystr \<Rightarrow> int \<Rightarrow> borrow_check option" where
  "first_failing_check e w pid bid = find (check_fails e w pid bid) check_order"

text \<open>
  The gateway a payment call uses (the one it is given, or a fresh \<^verbatim>\<open>PaymentGateway()\<close>), and
  the result a refund makes of the gateway's reply: the success message passed through, a
  reported failure and a raised fault turned into failure results.
\<close>

definition gateway_used :: "env \<Rightarrow> gateway option \<Rightarrow> gateway" where
  "gateway_used e payment_gateway =
     (case payment_gateway of None \<Rightarrow> PaymentGateway e | Some g \<Rightarrow> g)"

definition refund_reply :: "(bool \<times> string) reply \<Rightarrow> bool \<times> string" where
  "refund_reply rep =
     (case rep of
        Returns (success, message) \<Rightarrow>
          if success then (True, message) else (False, ''Refund failed: '' @ message)
      | Raises msg \<Rightarrow> (False, ''Refund processing error: '' @ msg))"









section \<open>Example data\<close>

text \<open>
  A gateway that accepts everything, one that declines and one that raises; an
  environment whose connection hands timestamps over as datetime objects, with an ISO
  format that knows the three instants used below (day 0, day 14 and day 34) and a digit
  test that knows the ASCII digits, the superscripts one, two and three and the fullwidth
  digits.
\<close>

definition demo_gateway :: gateway where
  "demo_gateway =
     \<lparr>process_payment = (\<lambda>pid amount description. Returns (True, Some ''txn_demo'', ''Success'')),
      refund_payment = (\<lambda>txn amount. Returns (True, ''Refund successful''))\<rparr>"

definition iso_text :: "int \<Rightarrow> string" where
  "iso_text n =
     (if n = timedelta_days 14 then ''2025-01-15T09:00:00''
      else if n = timedelta_days 34 then ''2025-02-04T09:00:00''
      else ''2025-01-01T09:00:00'')"

definition iso_parse :: "string \<Rightarrow> int option" where
  "iso_parse s =
     (if s = ''2025-01-15T09:00:00'' then Some (timedelta_days 14)
      else if s = ''2025-02-04T09:00:00'' then Some (timedelta_days 34)
      else if s = ''2025-01-01T09:00:00'' then Some 0
      else None)"

definition demo_env :: env where
  "demo_env =
     \<lparr>fromisoformat = iso_parse, isoformat = iso_text,
      strftime_ymd = (\<lambda>n. take 10 (iso_text n)),
      fetch_ts = TsDatetime,
      PaymentGateway = demo_gateway,
      unicode_digit =
        (\<lambda>c. 48 \<le> c \<and> c \<le> 57 \<or> c = 178 \<or> c = 179 \<or> c = 185 \<or>
             65296 \<le> c \<and> c \<le> 65305)\<rparr>"

text \<open>
  The same environment with a connection that hands timestamps over as ISO text, as
  SQLite does for a TEXT column.
\<close>

definition text_env :: env where
  "text_env = demo_env\<lparr>fetch_ts := (\<lambda>n. TsText (iso_text n))\<rparr>"

definition declining_gateway :: gateway where
  "declining_gateway =
     \<lparr>process_payment = (\<lambda>pid amount description. Returns (False, None, ''Card declined'')),
      refund_payment = (\<lambda>txn amount. Returns (False, ''Transaction not found''))\<rparr>"

definition failing_gateway :: gateway where
  "failing_gateway =
     \<lparr>process_payment = (\<lambda>pid amount description. Raises ''Network timeout''),
      refund_payment = (\<lambda>txn amount. Raises ''Gateway error'')\<rparr>"

text \<open>
  The patron ids \<^verbatim>\<open>123456\<close> and \<^verbatim>\<open>12345\<close> followed by the superscript two (U+00B2), as code
  points.
\<close>

definition demo_patron :: pystr where
  "demo_patron = [49, 50, 51, 52, 53, 54]"

definition superscript_patron :: pystr where
  "superscript_patron = [49, 50, 51, 52, 53, 178]"

definition demo_book :: book where
  "demo_book =
     \<lparr>title = ''Clean Code'', author = ''Robert Martin'', isbn = ''9780132350884'',
      total_copies = 1, available_copies = 1\<rparr>"

definition loan :: "pystr \<Rightarrow> int \<Rightarrow> borrow_record" where
  "loan pid bid =
     \<lparr>patron_id = pid, book_id = bid, borrow_date = 0, due_date = timedelta_days 14,
      return_date = None\<rparr>"

text \<open>One book with its single copy on the shelf and no loans.\<close>

definition demo_world :: world where
  "demo_world = \<lparr>books = [1 \<mapsto> demo_book], records = [], gateway_log = []\<rparr>"

text \<open>The same book, and a patron who holds five other books.\<close>

definition busy_world :: world where
  "busy_world =
     \<lparr>books = [1 \<mapsto> demo_book], records = map (loan demo_patron) [2, 3, 4, 5, 6],
      gateway_log = []\<rparr>"

text \<open>The single copy is on loan to the patron, due on day 14.\<close>

definition loaned_world :: world where
  "loaned_world =
     \<lparr>books = [1 \<mapsto> demo_book\<lparr>available_copies := 0\<rparr>], records = [loan demo_patron 1],
      gateway_log = []\<rparr>"

text \<open>The loan was due on day 14 and returned on day 34, twenty days late.\<close>

definition returned_world :: world where
  "returned_world =
     \<lparr>books = [1 \<mapsto> demo_book],
      records = [(loan demo_patron 1)\<lparr>return_date := Some (timedelta_days 34)\<rparr>],
      gateway_log = []\<rparr>"

definition all_ok :: storage where
  "all_ok = \<lparr>insert_ok = True, availability_ok = True, return_date_ok = True\<rparr>"

text \<open>The record is inserted, then both the decrement and the compensating close fail.\<close>

definition decrement_and_close_fail :: storage where
  "decrement_and_close_fail =
     \<lparr>insert_ok = True, availability_ok = False, return_date_ok = False\<rparr>"

text \<open>The record is inserted, the decrement fails, the compensating close succeeds.\<close>

definition decrement_fails :: storage where
  "decrement_fails = \<lparr>insert_ok = True, availability_ok = False, return_date_ok = True\<rparr>"


section \<open>The fee calculator computes the tiered, capped fee\<close>





section \<open>Evaluating the definitions on the examples\<close>

lemmas service_defs =
  borrow_book_by_patron_def return_book_by_patron_def get_book_by_id_def
  get_patron_borrow_count_def get_borrow_record_def insert_borrow_record_def
  update_book_availability_def update_borrow_record_return_date_def close_record_def
  invalid_patron_id_def isdigit_def active_for_def active_def
  calculate_late_fee_for_book_def record_due_def evaluation_instant_def resolve_due_def
  late_fee_def round2_def round_half_even_def days_of_def timedelta_days_def usec_per_day_def

lemmas example_defs =
  demo_gateway_def declining_gateway_def failing_gateway_def iso_text_def iso_parse_def
  demo_env_def text_env_def demo_patron_def superscript_patron_def demo_book_def loan_def demo_world_def
  busy_world_def loaned_world_def returned_world_def all_ok_def decrement_and_close_fail_def
  decrement_fails_def



section \<open>Validation of a borrow\<close>

lemma invalid_patron_id_iff:
  "invalid_patron_id e pid \<longleftrightarrow> \<not> (length pid = 6 \<and> list_all (unicode_digit e) pid)"
  by (auto simp: invalid_patron_id_def isdigit_def)

lemma get_borrow_record_None_iff:
  "get_borrow_record w pid bid = None \<longleftrightarrow> \<not> list_ex (active_for pid bid) (records w)"
  by (auto simp: get_borrow_record_def find_None_iff list_ex_iff)

lemma borrow_rejected:
  assumes "first_failing_check e w pid bid = Some c"
  shows "borrow_book_by_patron e st now now_comp pid bid w = ((False, check_error c), w)"
  using assms
  by (auto simp: first_failing_check_def check_order_def check_fails_def check_error_def
      borrow_book_by_patron_def get_book_by_id_def invalid_patron_id_iff
      get_borrow_record_None_iff
      split: if_splits option.splits)

lemma borrow_at_limit:
  assumes "get_patron_borrow_count w pid = 5"
  shows "\<not> fst (fst (borrow_book_by_patron e st now now_comp pid bid w))"
    and "snd (borrow_book_by_patron e st now now_comp pid bid w) = w"
  using assms
  by (auto simp: borrow_book_by_patron_def split: option.splits)

text \<open>
  Claim C4. The validation checks of \<open>borrow_book_by_patron\<close> run in the order patron-id
  format, book existence, available copies, active-loan count below the limit, no duplicate
  active loan: whatever check is the first to fail in that order, the call returns that
  check's error and leaves the state as it was. A patron with exactly 5 active loans is
  rejected, with the state unchanged.
\<close>

theorem borrow_validation_order:
  "(first_failing_check e w pid bid = Some c \<longrightarrow>
      borrow_book_by_patron e st now now_comp pid bid w = ((False, check_error c), w)) \<and>
   (get_patron_borrow_count w pid = 5 \<longrightarrow>
      \<not> fst (fst (borrow_book_by_patron e st now now_comp pid bid w)) \<and>
      snd (borrow_book_by_patron e st now now_comp pid bid w) = w)"
proof (intro conjI impI)
  assume "first_failing_check e w pid bid = Some c"
  then show "borrow_book_by_patron e st now now_comp pid bid w = ((False, check_error c), w)"
    by (rule borrow_rejected)
next
  assume "get_patron_borrow_count w pid = 5"
  then show "\<not> fst (fst (borrow_book_by_patron e st now now_comp pid bid w))"
    by (rule borrow_at_limit)
next
  assume "get_patron_borrow_count w pid = 5"
  then show "snd (borrow_book_by_patron e st now now_comp pid bid w) = w"
    by (rule borrow_at_limit)
qed

lemma busy_first: "first_failing_check demo_env busy_world demo_patron 1 = Some BelowLoanLimit"
  by (simp add: first_failing_check_def check_order_def check_fails_def service_defs example_defs)

lemma busy_count: "get_patron_borrow_count busy_world demo_patron = 5"
  by (simp add: service_defs example_defs)

theorem borrow_validation_order_witness:
  "first_failing_check demo_env busy_world demo_patron 1 = Some BelowLoanLimit \<and>
   get_patron_borrow_count busy_world demo_patron = 5 \<and>
   borrow_book_by_patron demo_env all_ok 0 1 demo_patron 1 busy_world =
     ((False, ''You have reached the maximum borrowing limit of 5 books.''), busy_world)"
  using borrow_validation_order [where e = demo_env and w = busy_world and pid = demo_patron
      and bid = 1 and c = BelowLoanLimit and st = all_ok and now = 0 and now_comp = 1]
    busy_first busy_count
  by (simp add: check_error_def)

section \<open>Effects of a successful borrow and a successful return\<close>

lemma filter_active_for_None:
  "get_borrow_record w pid bid = None \<Longrightarrow> filter (active_for pid bid) (records w) = []"
  by (auto simp: get_borrow_record_def find_None_iff filter_empty_conv)


text \<open>
  Claim C2. When \<open>borrow_book_by_patron\<close> succeeds, the book's \<open>available_copies\<close> is exactly
  one less than before, and the active records of the (patron, book) pair are exactly one
  record, borrowed at the borrow instant and due 14 days after it.
\<close>

theorem borrow_success_effects:
  assumes "borrow_book_by_patron e st now now_comp pid bid w = ((True, msg), w')"
  shows "\<exists>b. books w bid = Some b \<and>
           books w' bid = Some (b\<lparr>available_copies := available_copies b - 1\<rparr>) \<and>
           filter (active_for pid bid) (records w') =
             [\<lparr>patron_id = pid, book_id = bid, borrow_date = now,
               due_date = now + timedelta_days 14, return_date = None\<rparr>]"
  using assms
  by (auto simp: borrow_book_by_patron_def get_book_by_id_def insert_borrow_record_def
      update_book_availability_def update_borrow_record_return_date_def
      filter_active_for_None active_for_def Let_def
      split: if_splits option.splits prod.splits)

lemma demo_borrow:
  "borrow_book_by_patron demo_env all_ok 0 1 demo_patron 1 demo_world =
     ((True, ''Successfully borrowed '' @ [dq] @ ''Clean Code'' @ [dq] @ ''. Due date: 2025-01-15.''),
      \<lparr>books = [1 \<mapsto> demo_book\<lparr>available_copies := 0\<rparr>],
       records = [\<lparr>patron_id = demo_patron, book_id = 1, borrow_date = 0,
                   due_date = timedelta_days 14, return_date = None\<rparr>],
       gateway_log = []\<rparr>)"
  by (simp add: service_defs example_defs)

theorem borrow_success_effects_witness:
  "\<exists>b. books demo_world 1 = Some b \<and>
     books (snd (borrow_book_by_patron demo_env all_ok 0 1 demo_patron 1 demo_world)) 1 =
       Some (b\<lparr>available_copies := available_copies b - 1\<rparr>) \<and>
     filter (active_for demo_patron 1)
       (records (snd (borrow_book_by_patron demo_env all_ok 0 1 demo_patron 1 demo_world))) =
       [\<lparr>patron_id = demo_patron, book_id = 1, borrow_date = 0,
         due_date = 0 + timedelta_days 14, return_date = None\<rparr>]"
  using borrow_success_effects [of demo_env all_ok 0 1 demo_patron 1 demo_world] demo_borrow
  by simp










section \<open>A storage failure between the two writes\<close>

lemma get_borrow_record_None_filter:
  "get_borrow_record w pid bid = None \<longleftrightarrow> filter (active_for pid bid) (records w) = []"
  by (auto simp: get_borrow_record_def find_None_iff filter_empty_conv)

lemma map_close_inactive:
  "filter (active_for pid bid) xs = [] \<Longrightarrow> map (close_record pid bid t) xs = xs"
  by (induction xs) (auto simp: close_record_def split: if_splits)

lemma borrow_decrement_fails:
  assumes "\<not> invalid_patron_id e pid" and "books w bid = Some b" and "0 < available_copies b"
    and "get_patron_borrow_count w pid < 5" and "get_borrow_record w pid bid = None"
    and "insert_ok st" and "\<not> availability_ok st"
  shows "borrow_book_by_patron e st now now_comp pid bid w =
     ((False, ''Database error occurred while updating book availability.''),
      w\<lparr>records := records w @
          [\<lparr>patron_id = pid, book_id = bid, borrow_date = now,
            due_date = now + timedelta_days 14,
            return_date = (if return_date_ok st then Some now_comp else None)\<rparr>]\<rparr>)"
  using assms filter_active_for_None [OF assms(5)]
  by (simp add: borrow_book_by_patron_def get_book_by_id_def insert_borrow_record_def
      update_book_availability_def update_borrow_record_return_date_def map_close_inactive
      close_record_def active_for_def Let_def)

lemma return_mark_fails:
  assumes "\<not> return_date_ok st"
  shows "snd (return_book_by_patron e st now pid bid w) = w"
    and "fst (return_book_by_patron e st now pid bid w) \<noteq> Inr (True, msg)"
  using assms
  by (auto simp: return_book_by_patron_def update_borrow_record_return_date_def Let_def
      split: option.splits sum.splits)

lemma return_mark_fails_message:
  assumes "\<not> invalid_patron_id e pid" and "bid \<noteq> 0" and "books w bid = Some b"
    and "get_borrow_record w pid bid = Some r"
    and "calculate_late_fee_for_book e w now pid bid
           (Some (Some (fetch_ts e (due_date r)))) (Some (TsDatetime now)) = Inr q"
    and "\<not> return_date_ok st"
  shows "return_book_by_patron e st now pid bid w =
           (Inr (False, ''Database error occurred while marking return.''), w)"
  using assms
  by (simp add: return_book_by_patron_def get_book_by_id_def
      update_borrow_record_return_date_def)

text \<open>
  Claim C5, as amended. When a borrow has passed validation and inserted its record and the
  availability decrement then fails, the call reports the storage failure and issues the
  compensating return-date update (whose result it discards); when that update succeeds,
  the new record is closed with the return date read from the clock at that moment and no
  active loan of the (patron, book) pair is left. When a return reaches its writes and the
  return-date update fails, the call reports the storage failure and leaves the whole
  state, the availability included, as it was.
\<close>

theorem partial_failure_policy:
  "(\<not> invalid_patron_id e pid \<and> books w bid = Some b \<and> 0 < available_copies b \<and>
    get_patron_borrow_count w pid < 5 \<and> get_borrow_record w pid bid = None \<and>
    insert_ok st \<and> \<not> availability_ok st \<longrightarrow>
      fst (borrow_book_by_patron e st now now_comp pid bid w) =
        (False, ''Database error occurred while updating book availability.'') \<and>
      (return_date_ok st \<longrightarrow>
         snd (borrow_book_by_patron e st now now_comp pid bid w) =
           w\<lparr>records := records w @
               [\<lparr>patron_id = pid, book_id = bid, borrow_date = now,
                 due_date = now + timedelta_days 14, return_date = Some now_comp\<rparr>]\<rparr> \<and>
         get_borrow_record (snd (borrow_book_by_patron e st now now_comp pid bid w)) pid bid =
           None)) \<and>
   (\<not> invalid_patron_id e pid \<and> bid \<noteq> 0 \<and> books w bid = Some b \<and>
    get_borrow_record w pid bid = Some r \<and>
    calculate_late_fee_for_book e w now pid bid
      (Some (Some (fetch_ts e (due_date r)))) (Some (TsDatetime now)) = Inr q \<and>
    \<not> return_date_ok st \<longrightarrow>
      return_book_by_patron e st now pid bid w =
        (Inr (False, ''Database error occurred while marking return.''), w))"
proof (intro conjI impI)
  assume a: "\<not> invalid_patron_id e pid \<and> books w bid = Some b \<and> 0 < available_copies b \<and>
    get_patron_borrow_count w pid < 5 \<and> get_borrow_record w pid bid = None \<and>
    insert_ok st \<and> \<not> availability_ok st"
  then show "fst (borrow_book_by_patron e st now now_comp pid bid w) =
        (False, ''Database error occurred while updating book availability.'')"
    using borrow_decrement_fails [of e pid w bid b st now now_comp] by simp
  assume ok: "return_date_ok st"
  with a have eq: "borrow_book_by_patron e st now now_comp pid bid w =
        ((False, ''Database error occurred while updating book availability.''),
         w\<lparr>records := records w @
             [\<lparr>patron_id = pid, book_id = bid, borrow_date = now,
               due_date = now + timedelta_days 14, return_date = Some now_comp\<rparr>]\<rparr>)"
    using borrow_decrement_fails [of e pid w bid b st now now_comp] by simp
  then show "snd (borrow_book_by_patron e st now now_comp pid bid w) =
         w\<lparr>records := records w @
             [\<lparr>patron_id = pid, book_id = bid, borrow_date = now,
               due_date = now + timedelta_days 14, return_date = Some now_comp\<rparr>]\<rparr>"
    by simp
  from a have "filter (active_for pid bid) (records w) = []"
    by (simp add: filter_active_for_None)
  then have "filter (active_for pid bid)
      (records w @ [\<lparr>patron_id = pid, book_id = bid, borrow_date = now,
               due_date = now + timedelta_days 14, return_date = Some now_comp\<rparr>]) = []"
    by (simp add: active_for_def)
  then show "get_borrow_record (snd (borrow_book_by_patron e st now now_comp pid bid w)) pid bid = None"
    by (simp add: eq get_borrow_record_None_filter)
next
  assume "\<not> invalid_patron_id e pid \<and> bid \<noteq> 0 \<and> books w bid = Some b \<and>
    get_borrow_record w pid bid = Some r \<and>
    calculate_late_fee_for_book e w now pid bid
      (Some (Some (fetch_ts e (due_date r)))) (Some (TsDatetime now)) = Inr q \<and>
    \<not> return_date_ok st"
  then show "return_book_by_patron e st now pid bid w =
        (Inr (False, ''Database error occurred while marking return.''), w)"
    using return_mark_fails_message by blast
qed

lemma demo_borrow_decrement_fails:
  "borrow_book_by_patron demo_env decrement_fails 0 1 demo_patron 1 demo_world =
     ((False, ''Database error occurred while updating book availability.''),
      \<lparr>books = [1 \<mapsto> demo_book],
       records = [\<lparr>patron_id = demo_patron, book_id = 1, borrow_date = 0,
                   due_date = timedelta_days 14, return_date = Some 1\<rparr>],
       gateway_log = []\<rparr>)"
  by (simp add: service_defs example_defs)

theorem partial_failure_policy_witness:
  "borrow_book_by_patron demo_env decrement_fails 0 1 demo_patron 1 demo_world =
     ((False, ''Database error occurred while updating book availability.''),
      demo_world\<lparr>records := records demo_world @
          [\<lparr>patron_id = demo_patron, book_id = 1, borrow_date = 0,
            due_date = 0 + timedelta_days 14, return_date = Some 1\<rparr>]\<rparr>) \<and>
   get_borrow_record
     (snd (borrow_book_by_patron demo_env decrement_fails 0 1 demo_patron 1 demo_world))
     demo_patron 1 = None \<and>
   return_book_by_patron demo_env decrement_and_close_fail (timedelta_days 24) demo_patron 1
     loaned_world =
     (Inr (False, ''Database error occurred while marking return.''), loaned_world)"
proof -
  have b1: "\<not> invalid_patron_id demo_env demo_patron \<and> books demo_world 1 = Some demo_book \<and>
      0 < available_copies demo_book \<and> get_patron_borrow_count demo_world demo_patron < 5 \<and>
      get_borrow_record demo_world demo_patron 1 = None \<and>
      insert_ok decrement_fails \<and> \<not> availability_ok decrement_fails"
    by (simp add: service_defs example_defs)
  have b2: "return_date_ok decrement_fails"
    by (simp add: example_defs)
  have r1: "\<not> invalid_patron_id demo_env demo_patron \<and> (1::int) \<noteq> 0 \<and>
      books loaned_world 1 = Some (demo_book\<lparr>available_copies := 0\<rparr>) \<and>
      get_borrow_record loaned_world demo_patron 1 = Some (loan demo_patron 1) \<and>
      calculate_late_fee_for_book demo_env loaned_world (timedelta_days 24) demo_patron 1
        (Some (Some (fetch_ts demo_env (due_date (loan demo_patron 1)))))
        (Some (TsDatetime (timedelta_days 24))) =
        Inr \<lparr>fee_amount = 6.5, days_overdue = 10, status = ''ok''\<rparr> \<and>
      \<not> return_date_ok decrement_and_close_fail"
    by (simp add: service_defs example_defs)
  from partial_failure_policy [where e = demo_env and pid = demo_patron and w = demo_world
      and bid = 1 and b = demo_book and st = decrement_fails and now = 0 and now_comp = 1]
    b1 b2
  have "snd (borrow_book_by_patron demo_env decrement_fails 0 1 demo_patron 1 demo_world) =
           demo_world\<lparr>records := records demo_world @
               [\<lparr>patron_id = demo_patron, book_id = 1, borrow_date = 0,
                 due_date = 0 + timedelta_days 14, return_date = Some 1\<rparr>]\<rparr> \<and>
        fst (borrow_book_by_patron demo_env decrement_fails 0 1 demo_patron 1 demo_world) =
          (False, ''Database error occurred while updating book availability.'') \<and>
        get_borrow_record
          (snd (borrow_book_by_patron demo_env decrement_fails 0 1 demo_patron 1 demo_world))
          demo_patron 1 = None"
    by blast
  moreover
  from partial_failure_policy [where e = demo_env and pid = demo_patron and w = loaned_world
      and bid = 1 and b = "demo_book\<lparr>available_copies := 0\<rparr>"
      and st = decrement_and_close_fail and now = "timedelta_days 24"
      and r = "loan demo_patron 1"
      and q = "\<lparr>fee_amount = 6.5, days_overdue = 10, status = ''ok''\<rparr>"] r1
  have "return_book_by_patron demo_env decrement_and_close_fail (timedelta_days 24) demo_patron 1
     loaned_world =
     (Inr (False, ''Database error occurred while marking return.''), loaned_world)"
    by blast
  ultimately show ?thesis
    by (metis prod.collapse)
qed

text \<open>
  Claim C5 as stated fails where the compensating update fails as well: the borrow of the
  example inserts its record, the decrement fails, the close fails, and the call reports
  the storage failure with the new loan still active.
\<close>

theorem borrow_compensation_counterexample:
  "fst (borrow_book_by_patron demo_env decrement_and_close_fail 0 1 demo_patron 1 demo_world) =
     (False, ''Database error occurred while updating book availability.'') \<and>
   get_borrow_record
     (snd (borrow_book_by_patron demo_env decrement_and_close_fail 0 1 demo_patron 1 demo_world))
     demo_patron 1 =
     Some \<lparr>patron_id = demo_patron, book_id = 1, borrow_date = 0,
           due_date = timedelta_days 14, return_date = None\<rparr>"
  by (simp add: service_defs example_defs)

section \<open>The availability invariant\<close>




















section \<open>Paying and refunding\<close>

text \<open>
  Claim C7. Whenever the fee computed for a valid patron id is 0 or less, \<open>pay_late_fees\<close>
  returns the failure "No late fees to pay for this book." with no transaction id and
  leaves the state as it was: the log of gateway calls is unchanged, so
  \<open>process_payment\<close> was not invoked.
\<close>

theorem pay_late_fees_no_fee_due:
  assumes "\<not> invalid_patron_id e pid"
    and "calculate_late_fee_for_book e w clock pid bid None None = Inr q"
    and "fee_amount q \<le> 0"
  shows "pay_late_fees e clock pid bid payment_gateway w =
           (Inr (False, ''No late fees to pay for this book.'', None), w) \<and>
         gateway_log (snd (pay_late_fees e clock pid bid payment_gateway w)) = gateway_log w"
  using assms by (simp add: pay_late_fees_def)

lemma demo_no_fee:
  "calculate_late_fee_for_book demo_env demo_world 0 demo_patron 1 None None =
     Inr \<lparr>fee_amount = 0, days_overdue = 0, status = ''ok''\<rparr>"
  by (simp add: service_defs example_defs)

theorem pay_late_fees_no_fee_due_witness:
  "pay_late_fees demo_env 0 demo_patron 1 None demo_world =
     (Inr (False, ''No late fees to pay for this book.'', None), demo_world) \<and>
   gateway_log (snd (pay_late_fees demo_env 0 demo_patron 1 None demo_world)) = []"
proof -
  have v: "\<not> invalid_patron_id demo_env demo_patron"
    by (simp add: service_defs example_defs)
  have z: "fee_amount \<lparr>fee_amount = 0, days_overdue = 0, status = ''ok''\<rparr> \<le> 0"
    by simp
  from pay_late_fees_no_fee_due [OF v demo_no_fee z, of None]
  show ?thesis by (simp add: demo_world_def)
qed

text \<open>
  Claim C8. When the transaction id is empty or does not start with \<open>txn_\<close>, or the amount
  is 0 or less, or the amount exceeds 15.00, \<open>refund_late_fee_payment\<close> returns a failure and
  leaves the state as it was, the gateway log included. Otherwise it adds exactly one call
  of \<open>refund_payment\<close>, with the given transaction id and amount, to the log, and its
  result is that of the gateway's reply: success only when the gateway reports success,
  a failure result when the gateway reports failure or raises.
\<close>

theorem refund_late_fee_payment_gate:
  "(transaction_id = [] \<or> \<not> startswith transaction_id ''txn_'' \<or> amount \<le> 0 \<or> 15 < amount \<longrightarrow>
      \<not> fst (fst (refund_late_fee_payment e transaction_id amount payment_gateway w)) \<and>
      snd (refund_late_fee_payment e transaction_id amount payment_gateway w) = w) \<and>
   (\<not> (transaction_id = [] \<or> \<not> startswith transaction_id ''txn_'' \<or> amount \<le> 0 \<or> 15 < amount) \<longrightarrow>
      snd (refund_late_fee_payment e transaction_id amount payment_gateway w) =
        w\<lparr>gateway_log := gateway_log w @ [RefundPayment transaction_id amount]\<rparr> \<and>
      fst (refund_late_fee_payment e transaction_id amount payment_gateway w) =
        refund_reply (refund_payment (gateway_used e payment_gateway) transaction_id amount) \<and>
      (fst (fst (refund_late_fee_payment e transaction_id amount payment_gateway w)) \<longleftrightarrow>
         (\<exists>message. refund_payment (gateway_used e payment_gateway) transaction_id amount =
            Returns (True, message))))"
  by (auto simp: refund_late_fee_payment_def refund_reply_def gateway_used_def Let_def
      split: reply.splits prod.splits option.splits)

theorem refund_late_fee_payment_gate_witness:
  "\<not> fst (fst (refund_late_fee_payment demo_env ''123ABC'' 5 (Some declining_gateway) demo_world)) \<and>
   snd (refund_late_fee_payment demo_env ''123ABC'' 5 (Some declining_gateway) demo_world) =
     demo_world \<and>
   refund_late_fee_payment demo_env ''txn_FAIL1'' 5 (Some declining_gateway) demo_world =
     ((False, ''Refund failed: Transaction not found''),
      demo_world\<lparr>gateway_log := [RefundPayment ''txn_FAIL1'' 5]\<rparr>)"
proof -
  have bad: "''123ABC'' = [] \<or> \<not> startswith ''123ABC'' ''txn_'' \<or> (5::real) \<le> 0 \<or> (15::real) < 5"
    by (simp add: startswith_def)
  have good: "\<not> (''txn_FAIL1'' = [] \<or> \<not> startswith ''txn_FAIL1'' ''txn_'' \<or> (5::real) \<le> 0 \<or>
      (15::real) < 5)"
    by (simp add: startswith_def)
  have rep: "refund_reply (refund_payment (gateway_used demo_env (Some declining_gateway))
        ''txn_FAIL1'' 5) = (False, ''Refund failed: Transaction not found'')"
    by (simp add: refund_reply_def gateway_used_def declining_gateway_def)
  from refund_late_fee_payment_gate [of "''123ABC''" 5 demo_env "Some declining_gateway" demo_world]
    bad
  have "\<not> fst (fst (refund_late_fee_payment demo_env ''123ABC'' 5 (Some declining_gateway)
          demo_world)) \<and>
        snd (refund_late_fee_payment demo_env ''123ABC'' 5 (Some declining_gateway) demo_world) =
          demo_world"
    by blast
  moreover
  from refund_late_fee_payment_gate [of "''txn_FAIL1''" 5 demo_env "Some declining_gateway"
      demo_world] good
  have "snd (refund_late_fee_payment demo_env ''txn_FAIL1'' 5 (Some declining_gateway) demo_world) =
          demo_world\<lparr>gateway_log := gateway_log demo_world @ [RefundPayment ''txn_FAIL1'' 5]\<rparr> \<and>
        fst (refund_late_fee_payment demo_env ''txn_FAIL1'' 5 (Some declining_gateway) demo_world) =
          refund_reply (refund_payment (gateway_used demo_env (Some declining_gateway))
            ''txn_FAIL1'' 5)"
    by blast
  ultimately show ?thesis
    by (simp add: rep demo_world_def prod_eq_iff)
qed

text \<open>
  Claim C10. For every input and every outcome, \<open>pay_late_fees\<close> and
  \<open>refund_late_fee_payment\<close> leave the books and the borrow records as they were.
\<close>

theorem payments_leave_library_state:
  "books (snd (pay_late_fees e clock pid bid payment_gateway w)) = books w \<and>
   records (snd (pay_late_fees e clock pid bid payment_gateway w)) = records w \<and>
   books (snd (refund_late_fee_payment e transaction_id amount payment_gateway w)) = books w \<and>
   records (snd (refund_late_fee_payment e transaction_id amount payment_gateway w)) = records w"
  by (auto simp: pay_late_fees_def refund_late_fee_payment_def Let_def
      split: sum.splits option.splits reply.splits prod.splits)

lemma loaned_pay:
  "pay_late_fees demo_env (timedelta_days 24) demo_patron 1 (Some failing_gateway) loaned_world =
     (Inr (False, ''Payment processing error: Network timeout'', None),
      loaned_world\<lparr>gateway_log :=
        [ProcessPayment demo_patron 6.5 (''Late fees for '' @ [sq] @ ''Clean Code'' @ [sq])]\<rparr>)"
  by (simp add: pay_late_fees_def service_defs example_defs)


theorem payments_leave_library_state_witness:
  "books (snd (pay_late_fees demo_env (timedelta_days 24) demo_patron 1 (Some failing_gateway)
      loaned_world)) = books loaned_world \<and>
   records (snd (pay_late_fees demo_env (timedelta_days 24) demo_patron 1 (Some failing_gateway)
      loaned_world)) = records loaned_world \<and>
   books (snd (refund_late_fee_payment demo_env ''txn_FAIL1'' 5 (Some failing_gateway)
      loaned_world)) = books loaned_world \<and>
   records (snd (refund_late_fee_payment demo_env ''txn_FAIL1'' 5 (Some failing_gateway)
      loaned_world)) = records loaned_world \<and>
   gateway_log (snd (pay_late_fees demo_env (timedelta_days 24) demo_patron 1
      (Some failing_gateway) loaned_world)) =
     [ProcessPayment demo_patron 6.5 (''Late fees for '' @ [sq] @ ''Clean Code'' @ [sq])]"
  using payments_leave_library_state [of demo_env "timedelta_days 24" demo_patron 1
      "Some failing_gateway" loaned_world "''txn_FAIL1''" 5] loaned_pay
  by simp

section \<open>Totals and history of the status report\<close>

text \<open>
  What holds of every report: the total is the rounded sum of the current fees; the history
  rows are sorted by borrow date, descending, and are all records of the patron when every
  record refers to a book of the catalogue; the end-of-period fee of an open record is
  computed against the report's instant, and that of a closed record against its return
  date when the connection hands the return date over as a datetime. When it hands it
  over as text, the subtraction in the calculator raises \<^verbatim>\<open>TypeError\<close>, the loop catches it, and
  the entry's fee and days are 0.
\<close>

lemma report_totals:
  assumes "get_patron_status_report e now clock pid w = Inr (Report r)"
  shows "total_late_fees r = round2 (sum_list (map current_fee (current_loans r))) \<and>
         total_late_fees_owed r = total_late_fees r \<and>
         current_count r = length (current_loans r)"
  using assms
  by (auto simp: get_patron_status_report_def Let_def split: if_splits sum.splits)

lemma join_all_books:
  assumes "\<forall>r\<in>set xs. books w (book_id r) \<noteq> None"
  shows "map fst (List.map_filter (with_book w) xs) = xs"
  using assms
  by (induction xs) (auto simp: map_filter_simps with_book_def)

lemma history_rows_sorted:
  "sorted (map (\<lambda>row. - borrow_date (fst row)) (history_rows w pid))"
  by (simp add: history_rows_def)

lemma history_rows_complete:
  assumes "\<forall>r\<in>set (records w). books w (book_id r) \<noteq> None"
  shows "mset (map fst (history_rows w pid)) = mset (filter (\<lambda>r. patron_id r = pid) (records w))"
proof -
  from assms have "\<forall>r\<in>set (filter (\<lambda>r. patron_id r = pid) (records w)). books w (book_id r) \<noteq> None"
    by simp
  then have "map fst (List.map_filter (with_book w) (filter (\<lambda>r. patron_id r = pid) (records w))) =
      filter (\<lambda>r. patron_id r = pid) (records w)"
    by (rule join_all_books)
  then show ?thesis
    by (metis history_rows_def mset_map mset_sort)
qed

lemma history_row_open:
  assumes "return_date r = None" and "resolve_due e (fetch_ts e (due_date r)) = Inr d"
  shows "\<exists>h. history_row e w now pid (r, b) = Inr h \<and>
           days_overdue_at_end h = max 0 (days_of (now - d)) \<and>
           late_fee_at_end h = round2 (late_fee (max 0 (days_of (now - d))))"
  using assms
  by (simp add: history_row_def end_instant_def calculate_late_fee_for_book_def record_due_def
      evaluation_instant_def Let_def)

lemma history_row_closed_datetime:
  assumes "return_date r = Some t" and "fetch_ts e t = TsDatetime t"
    and "resolve_due e (fetch_ts e (due_date r)) = Inr d"
  shows "\<exists>h. history_row e w now pid (r, b) = Inr h \<and>
           days_overdue_at_end h = max 0 (days_of (t - d)) \<and>
           late_fee_at_end h = round2 (late_fee (max 0 (days_of (t - d))))"
  using assms
  by (simp add: history_row_def end_instant_def truthy_def calculate_late_fee_for_book_def
      record_due_def evaluation_instant_def Let_def)

lemma history_row_closed_text:
  assumes "return_date r = Some t" and "fetch_ts e t = TsText s" and "s \<noteq> []"
    and "resolve_due e (fetch_ts e (due_date r)) = Inr d"
  shows "\<exists>h. history_row e w now pid (r, b) = Inr h \<and>
           days_overdue_at_end h = 0 \<and> late_fee_at_end h = 0"
  using assms
  by (simp add: history_row_def end_instant_def truthy_def calculate_late_fee_for_book_def
      record_due_def evaluation_instant_def Let_def)

text \<open>
  Claim C9 (each history entry's end-of-period fee is computed against the return date
  when the record is closed) fails in the code where the return date is read back as ISO
  text. The example record was due on day 14 and returned on day 34; read through a
  connection that gives text, the report's history entry shows 0 days overdue and a fee
  of 0, while the fee of that due date against the return instant is 15.00 for 20 days.
\<close>

theorem history_fee_of_text_return_date:
  "get_patron_status_report text_env (timedelta_days 40) (\<lambda>i. timedelta_days 40) demo_patron
     returned_world =
     Inr (Report
       \<lparr>current_loans = [], current_count = 0, total_late_fees = 0,
        history =
          [\<lparr>hist_book_id = 1, hist_title = ''Clean Code'', hist_author = ''Robert Martin'',
            hist_isbn = ''9780132350884'', hist_borrow_date = ''2025-01-01T09:00:00'',
            hist_due_date = ''2025-01-15T09:00:00'',
            hist_return_date = Some ''2025-02-04T09:00:00'',
            days_overdue_at_end = 0, late_fee_at_end = 0\<rparr>],
        currently_borrowed = [], current_borrow_count = 0, total_late_fees_owed = 0,
        report_patron_id = demo_patron\<rparr>) \<and>
   calculate_late_fee_for_book text_env returned_world (timedelta_days 40) demo_patron 1
     (Some (Some (TsText ''2025-01-15T09:00:00''))) (Some (TsDatetime (timedelta_days 34))) =
     Inr \<lparr>fee_amount = 15, days_overdue = 20, status = ''ok''\<rparr>"
  by (simp add: get_patron_status_report_def get_patron_borrowed_books_def history_rows_def
      history_row_def end_instant_def truthy_def show_ts_def with_book_def map_filter_simps
      service_defs example_defs)

end
